theory Spec2Isabelle
  imports Complex_Main
begin

section \<open>Decoded JSON payloads and the Python operations the extractors use\<close>

text \<open>
  A payload is what \<^verbatim>\<open>response.json()\<close> returns: \<^verbatim>\<open>None\<close>, a bool, an int, a
  float, a str, a list or a dict. A dict is an association list in insertion order;
  a decoded dict has distinct keys, and a lookup takes the binding of the key.
  Floats are the reals they denote.
\<close>

datatype json =
    JNull
  | JBool bool
  | JInt int
  | JFloat real
  | JStr string
  | JArr "json list"
  | JObj "(string \<times> json) list"

datatype py_error = AttributeError | TypeError

text \<open>Sequencing of two computations that may raise: the first exception wins.\<close>

definition py_bind :: "py_error + 'a \<Rightarrow> ('a \<Rightarrow> py_error + 'b) \<Rightarrow> py_error + 'b" where
  "py_bind m f = (case m of Inl e \<Rightarrow> Inl e | Inr x \<Rightarrow> f x)"

text \<open>
  \<^verbatim>\<open>x.get(key, default)\<close>: on a dict, the value bound to the key when the key is
  present (whatever the value, \<^verbatim>\<open>None\<close> included), the default otherwise. Only a
  dict has the method.
\<close>

definition field_or :: "(string \<times> json) list \<Rightarrow> string \<Rightarrow> json \<Rightarrow> json" where
  "field_or kvs key dflt = (case map_of kvs key of None \<Rightarrow> dflt | Some v \<Rightarrow> v)"

fun py_get :: "json \<Rightarrow> string \<Rightarrow> json \<Rightarrow> py_error + json" where
  "py_get (JObj kvs) key dflt = Inr (field_or kvs key dflt)"
| "py_get _ key dflt = Inl AttributeError"

text \<open>
  \<^verbatim>\<open>for x in v\<close>: a list yields its elements, a dict its keys, a str its
  characters; nothing else is iterable.
\<close>

fun py_iter :: "json \<Rightarrow> py_error + json list" where
  "py_iter (JArr xs) = Inr xs"
| "py_iter (JObj kvs) = Inr (map (\<lambda>kv. JStr (fst kv)) kvs)"
| "py_iter (JStr s) = Inr (map (\<lambda>c. JStr [c]) s)"
| "py_iter _ = Inl TypeError"

text \<open>\<^verbatim>\<open>len(v)\<close>.\<close>

fun py_len :: "json \<Rightarrow> py_error + nat" where
  "py_len (JArr xs) = Inr (length xs)"
| "py_len (JObj kvs) = Inr (length kvs)"
| "py_len (JStr s) = Inr (length s)"
| "py_len _ = Inl TypeError"

text \<open>The truth value Python gives a payload in \<^verbatim>\<open>if\<close> and \<^verbatim>\<open>not\<close>.\<close>

fun truthy :: "json \<Rightarrow> bool" where
  "truthy JNull = False"
| "truthy (JBool b) = b"
| "truthy (JInt i) = (i \<noteq> 0)"
| "truthy (JFloat r) = (r \<noteq> 0)"
| "truthy (JStr s) = (s \<noteq> [])"
| "truthy (JArr xs) = (xs \<noteq> [])"
| "truthy (JObj kvs) = (kvs \<noteq> [])"

text \<open>
  The loop shared by the extractors:
  \<^verbatim>\<open>for x in items: extracted.append(record(x))\<close>, stopped by the first exception.
\<close>

fun extract_loop :: "(json \<Rightarrow> py_error + 'r) \<Rightarrow> json list \<Rightarrow> 'r list \<Rightarrow> py_error + 'r list" where
  "extract_loop f [] extracted = Inr extracted"
| "extract_loop f (x # xs) extracted =
     (case f x of Inl e \<Rightarrow> Inl e | Inr r \<Rightarrow> extract_loop f xs (extracted @ [r]))"

section \<open>The normalized records\<close>

record group_info =
  group_id :: json
  group_name :: json
  group_product :: json
  group_description :: json
  group_worker_count :: json
  group_configVersion :: json

record worker_info =
  worker_id :: json
  worker_hostname :: json
  worker_group :: json
  worker_status :: string
  worker_version :: json
  worker_ip :: json

record input_info =
  input_id :: json
  input_type :: json
  input_disabled :: json
  input_port :: json
  input_description :: json

record output_info =
  output_id :: json
  output_type :: json
  output_disabled :: json
  output_description :: json
  output_pipeline :: json

record pipeline_info =
  pipeline_id :: json
  pipeline_description :: json
  pipeline_function_count :: nat
  pipeline_functions :: "json list"
  pipeline_disabled :: json

record route_info =
  route_id :: json
  route_name :: json
  route_filter :: json
  route_pipeline :: json
  route_output :: json
  route_enabled :: bool
  route_final :: json
  route_description :: json

section \<open>The extractors\<close>

subsection \<open>extract_group_info\<close>

definition group_item :: "json \<Rightarrow> py_error + group_info" where
  "group_item grp =
     py_bind (py_get grp ''id'' (JStr ''N/A'')) (\<lambda>v_id.
     py_bind (py_get grp ''id'' (JStr ''N/A'')) (\<lambda>name_dflt.
     py_bind (py_get grp ''name'' name_dflt) (\<lambda>v_name.
     py_bind (py_get grp ''product'' (JStr ''stream'')) (\<lambda>v_product.
     py_bind (py_get grp ''description'' (JStr '''')) (\<lambda>v_description.
     py_bind (py_get grp ''workerCount'' (JInt 0)) (\<lambda>v_count.
     py_bind (py_get grp ''configVersion'' (JStr ''N/A'')) (\<lambda>v_version.
     Inr \<lparr> group_id = v_id, group_name = v_name, group_product = v_product,
           group_description = v_description, group_worker_count = v_count,
           group_configVersion = v_version \<rparr>)))))))"

definition extract_group_info :: "json \<Rightarrow> py_error + group_info list" where
  "extract_group_info groups_data =
     py_bind (py_get groups_data ''items'' (JArr [])) (\<lambda>items.
     py_bind (py_iter items) (\<lambda>xs. extract_loop group_item xs []))"

subsection \<open>extract_worker_info\<close>

definition worker_item :: "json \<Rightarrow> py_error + worker_info" where
  "worker_item wrk =
     py_bind (py_get wrk ''info'' (JObj [])) (\<lambda>info.
     py_bind (py_get wrk ''id'' (JStr ''N/A'')) (\<lambda>v_id.
     py_bind (py_get wrk ''hostname'' (JStr ''N/A'')) (\<lambda>host_dflt.
     py_bind (py_get info ''hostname'' host_dflt) (\<lambda>v_hostname.
     py_bind (py_get wrk ''group'' (JStr ''N/A'')) (\<lambda>v_group.
     py_bind (py_get wrk ''connected'' (JBool False)) (\<lambda>connected.
     py_bind (py_get info ''cribl'' (JObj [])) (\<lambda>cribl.
     py_bind (py_get cribl ''version'' (JStr ''N/A'')) (\<lambda>v_version.
     py_bind (py_get info ''host'' (JObj [])) (\<lambda>host.
     py_bind (py_get host ''ip'' (JStr ''N/A'')) (\<lambda>v_ip.
     Inr \<lparr> worker_id = v_id, worker_hostname = v_hostname, worker_group = v_group,
           worker_status = (if truthy connected then ''Online'' else ''Offline''),
           worker_version = v_version, worker_ip = v_ip \<rparr>))))))))))"

definition extract_worker_info :: "json \<Rightarrow> py_error + worker_info list" where
  "extract_worker_info workers_data =
     py_bind (py_get workers_data ''items'' (JArr [])) (\<lambda>items.
     py_bind (py_iter items) (\<lambda>xs. extract_loop worker_item xs []))"

subsection \<open>extract_input_info\<close>

definition input_item :: "json \<Rightarrow> py_error + input_info" where
  "input_item inp =
     py_bind (py_get inp ''id'' (JStr ''N/A'')) (\<lambda>v_id.
     py_bind (py_get inp ''type'' (JStr ''N/A'')) (\<lambda>v_type.
     py_bind (py_get inp ''disabled'' (JBool False)) (\<lambda>v_disabled.
     py_bind (py_get inp ''host'' (JStr ''N/A'')) (\<lambda>port_dflt.
     py_bind (py_get inp ''port'' port_dflt) (\<lambda>v_port.
     py_bind (py_get inp ''description'' (JStr '''')) (\<lambda>v_description.
     Inr \<lparr> input_id = v_id, input_type = v_type, input_disabled = v_disabled,
           input_port = v_port, input_description = v_description \<rparr>))))))"

definition extract_input_info :: "json \<Rightarrow> py_error + input_info list" where
  "extract_input_info inputs_data =
     py_bind (py_get inputs_data ''items'' (JArr [])) (\<lambda>items.
     py_bind (py_iter items) (\<lambda>xs. extract_loop input_item xs []))"

subsection \<open>extract_output_info\<close>

definition output_item :: "json \<Rightarrow> py_error + output_info" where
  "output_item out =
     py_bind (py_get out ''id'' (JStr ''N/A'')) (\<lambda>v_id.
     py_bind (py_get out ''type'' (JStr ''N/A'')) (\<lambda>v_type.
     py_bind (py_get out ''disabled'' (JBool False)) (\<lambda>v_disabled.
     py_bind (py_get out ''description'' (JStr '''')) (\<lambda>v_description.
     py_bind (py_get out ''pipeline'' (JStr '''')) (\<lambda>v_pipeline.
     Inr \<lparr> output_id = v_id, output_type = v_type, output_disabled = v_disabled,
           output_description = v_description, output_pipeline = v_pipeline \<rparr>)))))"

definition extract_output_info :: "json \<Rightarrow> py_error + output_info list" where
  "extract_output_info outputs_data =
     py_bind (py_get outputs_data ''items'' (JArr [])) (\<lambda>items.
     py_bind (py_iter items) (\<lambda>xs. extract_loop output_item xs []))"

subsection \<open>extract_pipeline_info\<close>

text \<open>The comprehension \<^verbatim>\<open>[f.get('id', 'unknown') for f in functions]\<close>.\<close>

definition function_type :: "json \<Rightarrow> py_error + json" where
  "function_type f = py_get f ''id'' (JStr ''unknown'')"

definition pipeline_item :: "json \<Rightarrow> py_error + pipeline_info" where
  "pipeline_item pipe =
     py_bind (py_get pipe ''conf'' (JObj [])) (\<lambda>conf0.
     py_bind (py_get conf0 ''functions'' (JArr [])) (\<lambda>functions.
     py_bind (py_iter functions) (\<lambda>fs.
     py_bind (extract_loop function_type fs []) (\<lambda>function_types.
     py_bind (py_get pipe ''id'' (JStr ''N/A'')) (\<lambda>v_id.
     py_bind (py_get pipe ''conf'' (JObj [])) (\<lambda>conf1.
     py_bind (py_get conf1 ''description'' (JStr '''')) (\<lambda>v_description.
     py_bind (py_len functions) (\<lambda>n.
     py_bind (py_get pipe ''conf'' (JObj [])) (\<lambda>conf2.
     py_bind (py_get conf2 ''disabled'' (JBool False)) (\<lambda>v_disabled.
     Inr \<lparr> pipeline_id = v_id, pipeline_description = v_description,
           pipeline_function_count = n, pipeline_functions = take 5 function_types,
           pipeline_disabled = v_disabled \<rparr>))))))))))"

definition extract_pipeline_info :: "json \<Rightarrow> py_error + pipeline_info list" where
  "extract_pipeline_info pipelines_data =
     py_bind (py_get pipelines_data ''items'' (JArr [])) (\<lambda>items.
     py_bind (py_iter items) (\<lambda>xs. extract_loop pipeline_item xs []))"

subsection \<open>extract_route_info\<close>

definition route_entry :: "json \<Rightarrow> py_error + route_info" where
  "route_entry r =
     py_bind (py_get r ''name'' (JStr ''N/A'')) (\<lambda>id_dflt.
     py_bind (py_get r ''id'' id_dflt) (\<lambda>v_id.
     py_bind (py_get r ''name'' (JStr ''N/A'')) (\<lambda>v_name.
     py_bind (py_get r ''filter'' (JStr ''*'')) (\<lambda>v_filter.
     py_bind (py_get r ''pipeline'' (JStr ''passthru'')) (\<lambda>v_pipeline.
     py_bind (py_get r ''output'' (JStr ''default'')) (\<lambda>v_output.
     py_bind (py_get r ''disabled'' (JBool False)) (\<lambda>v_disabled.
     py_bind (py_get r ''final'' (JBool False)) (\<lambda>v_final.
     py_bind (py_get r ''description'' (JStr '''')) (\<lambda>v_description.
     Inr \<lparr> route_id = v_id, route_name = v_name, route_filter = v_filter,
           route_pipeline = v_pipeline, route_output = v_output,
           route_enabled = (\<not> truthy v_disabled), route_final = v_final,
           route_description = v_description \<rparr>)))))))))"

text \<open>
  The outer loop over the route sets; the inner loop appends the entries of one set
  to the same list \<^verbatim>\<open>extracted\<close>.
\<close>

fun route_sets_loop :: "json list \<Rightarrow> route_info list \<Rightarrow> py_error + route_info list" where
  "route_sets_loop [] extracted = Inr extracted"
| "route_sets_loop (rs # rest) extracted =
     (case py_bind (py_get rs ''routes'' (JArr [])) (\<lambda>routes_list.
           py_bind (py_iter routes_list) (\<lambda>entries.
           extract_loop route_entry entries extracted)) of
        Inl e \<Rightarrow> Inl e
      | Inr extracted' \<Rightarrow> route_sets_loop rest extracted')"

definition extract_route_info :: "json \<Rightarrow> py_error + route_info list" where
  "extract_route_info routes_data =
     py_bind (py_get routes_data ''items'' (JArr [])) (\<lambda>items.
     py_bind (py_iter items) (\<lambda>xs. route_sets_loop xs []))"

section \<open>The aggregation: fetch_all_data\<close>

text \<open>
  The client issues one GET per call and returns \<^verbatim>\<open>(True, data)\<close> or
  \<^verbatim>\<open>(False, message)\<close>. The remote service is a parameter: the answer to the
  \<open>n\<close>-th request of a run (counted from 0), given what is requested. The per-group
  requests carry the group id that is substituted into the endpoint template.
\<close>

datatype request =
    GetGroups
  | GetWorkers
  | GetInputs json
  | GetOutputs json
  | GetPipelines json
  | GetRoutes json

datatype response = Ok json | Err string

type_synonym client = "nat \<Rightarrow> request \<Rightarrow> response"

text \<open>One call: the answer, and the requests issued so far with this one appended.\<close>

definition call :: "client \<Rightarrow> request list \<Rightarrow> request \<Rightarrow> response \<times> request list" where
  "call client issued req = (client (length issued) req, issued @ [req])"

record group_data =
  gd_group :: group_info
  gd_inputs :: "input_info list"
  gd_outputs :: "output_info list"
  gd_pipelines :: "pipeline_info list"
  gd_routes :: "route_info list"

record snapshot =
  snap_groups :: "group_info list"
  snap_workers :: "worker_info list"
  snap_group_data :: "(json \<times> group_data) list"

datatype fetch_result = Failed string | Succeeded snapshot

text \<open>
  The dict \<^verbatim>\<open>all_group_data\<close>, keyed by group id. A list or a dict is not
  hashable; bools, ints and floats that are equal as numbers are the same key.
\<close>

fun hashable :: "json \<Rightarrow> bool" where
  "hashable (JArr xs) = False"
| "hashable (JObj kvs) = False"
| "hashable _ = True"

fun num_val :: "json \<Rightarrow> real option" where
  "num_val (JBool b) = Some (if b then 1 else 0)"
| "num_val (JInt i) = Some (of_int i)"
| "num_val (JFloat r) = Some r"
| "num_val _ = None"

definition key_eq :: "json \<Rightarrow> json \<Rightarrow> bool" where
  "key_eq a b =
     (case num_val a of
        Some x \<Rightarrow> num_val b = Some x
      | None \<Rightarrow> num_val b = None \<and> a = b)"

fun dict_put :: "(json \<times> 'v) list \<Rightarrow> json \<Rightarrow> 'v \<Rightarrow> (json \<times> 'v) list" where
  "dict_put [] k v = [(k, v)]"
| "dict_put ((k', v') # d) k v =
     (if key_eq k' k then (k', v) # d else (k', v') # dict_put d k v)"

text \<open>\<^verbatim>\<open>d[k] = v\<close>\<close>

definition dict_set :: "(json \<times> 'v) list \<Rightarrow> json \<Rightarrow> 'v \<Rightarrow> py_error + (json \<times> 'v) list" where
  "dict_set d k v = (if hashable k then Inr (dict_put d k v) else Inl TypeError)"


text \<open>
  One nested fetch:
  \<^verbatim>\<open>success, data = client.get_x(group_id); extract_x(data) if success else []\<close>.
\<close>

definition nested_result :: "response \<Rightarrow> (json \<Rightarrow> py_error + 'r list) \<Rightarrow> py_error + 'r list" where
  "nested_result resp extract = (case resp of Ok data \<Rightarrow> extract data | Err msg \<Rightarrow> Inr [])"

definition nested_fetch ::
  "client \<Rightarrow> request list \<Rightarrow> request \<Rightarrow> (json \<Rightarrow> py_error + 'r list) \<Rightarrow>
   (py_error + 'r list) \<times> request list" where
  "nested_fetch client issued req extract =
     (case call client issued req of (resp, issued') \<Rightarrow> (nested_result resp extract, issued'))"

text \<open>The body of the loop over the groups, up to the store into \<^verbatim>\<open>all_group_data\<close>.\<close>

definition fetch_group ::
  "client \<Rightarrow> group_info \<Rightarrow> request list \<Rightarrow> (py_error + group_data) \<times> request list" where
  "fetch_group client g issued0 =
     (case nested_fetch client issued0 (GetInputs (group_id g)) extract_input_info of
        (Inl e, issued1) \<Rightarrow> (Inl e, issued1)
      | (Inr ins, issued1) \<Rightarrow>
     (case nested_fetch client issued1 (GetOutputs (group_id g)) extract_output_info of
        (Inl e, issued2) \<Rightarrow> (Inl e, issued2)
      | (Inr outs, issued2) \<Rightarrow>
     (case nested_fetch client issued2 (GetPipelines (group_id g)) extract_pipeline_info of
        (Inl e, issued3) \<Rightarrow> (Inl e, issued3)
      | (Inr pipes, issued3) \<Rightarrow>
     (case nested_fetch client issued3 (GetRoutes (group_id g)) extract_route_info of
        (Inl e, issued4) \<Rightarrow> (Inl e, issued4)
      | (Inr rts, issued4) \<Rightarrow>
          (Inr \<lparr> gd_group = g, gd_inputs = ins, gd_outputs = outs,
                 gd_pipelines = pipes, gd_routes = rts \<rparr>, issued4)))))"

fun group_loop ::
  "client \<Rightarrow> group_info list \<Rightarrow> (json \<times> group_data) list \<Rightarrow> request list \<Rightarrow>
   (py_error + (json \<times> group_data) list) \<times> request list" where
  "group_loop client [] all_group_data issued = (Inr all_group_data, issued)"
| "group_loop client (g # gs) all_group_data issued =
     (case fetch_group client g issued of
        (Inl e, issued') \<Rightarrow> (Inl e, issued')
      | (Inr gd, issued') \<Rightarrow>
          (case dict_set all_group_data (group_id g) gd of
             Inl e \<Rightarrow> (Inl e, issued')
           | Inr all_group_data' \<Rightarrow> group_loop client gs all_group_data' issued'))"

text \<open>
  The result is what the function returns or the exception that leaves it, together
  with the requests it issued, in order.
\<close>

definition fetch_all_data :: "client \<Rightarrow> (py_error + fetch_result) \<times> request list" where
  "fetch_all_data client =
     (case call client [] GetGroups of
        (Err msg, issued1) \<Rightarrow> (Inr (Failed (''Failed to fetch groups: '' @ msg)), issued1)
      | (Ok groups_data, issued1) \<Rightarrow>
     (case extract_group_info groups_data of
        Inl e \<Rightarrow> (Inl e, issued1)
      | Inr groups \<Rightarrow>
     (case call client issued1 GetWorkers of
        (Err msg, issued2) \<Rightarrow> (Inr (Failed (''Failed to fetch workers: '' @ msg)), issued2)
      | (Ok workers_data, issued2) \<Rightarrow>
     (case extract_worker_info workers_data of
        Inl e \<Rightarrow> (Inl e, issued2)
      | Inr workers \<Rightarrow>
     (case group_loop client groups [] issued2 of
        (Inl e, issued3) \<Rightarrow> (Inl e, issued3)
      | (Inr all_group_data, issued3) \<Rightarrow>
          (Inr (Succeeded \<lparr> snap_groups = groups, snap_workers = workers,
                            snap_group_data = all_group_data \<rparr>), issued3))))))"

section \<open>Shapes of payloads\<close>

text \<open>
  The predicates in which the theorems name the payloads they are about. They read a
  field the way the extractors do, with \<open>field_or\<close> and the extractor's own default,
  so that an absent sub-object or list counts as the empty one.
\<close>

fun is_obj :: "json \<Rightarrow> bool" where
  "is_obj (JObj kvs) = True"
| "is_obj _ = False"

text \<open>
  A route set carries the entries \<open>entries\<close>: it is an object whose \<^verbatim>\<open>routes\<close> field is
  that list, or has no such field and the list is empty.
\<close>

definition carries :: "json \<Rightarrow> json list \<Rightarrow> bool" where
  "carries route_set entries =
     (case route_set of
        JObj skvs \<Rightarrow>
          (case map_of skvs ''routes'' of None \<Rightarrow> entries = [] | Some v \<Rightarrow> v = JArr entries)
      | _ \<Rightarrow> False)"

text \<open>
  A worker item: an object whose \<^verbatim>\<open>info\<close> is absent or an object, in which
  \<^verbatim>\<open>cribl\<close> and \<^verbatim>\<open>host\<close> are each absent or an object.
\<close>

definition worker_shape :: "json \<Rightarrow> bool" where
  "worker_shape wrk =
     (case wrk of
        JObj kvs \<Rightarrow>
          (case field_or kvs ''info'' (JObj []) of
             JObj ikvs \<Rightarrow>
               is_obj (field_or ikvs ''cribl'' (JObj [])) \<and> is_obj (field_or ikvs ''host'' (JObj []))
           | _ \<Rightarrow> False)
      | _ \<Rightarrow> False)"

text \<open>
  A pipeline item: an object whose \<^verbatim>\<open>conf\<close> is absent or an object, in which
  \<^verbatim>\<open>functions\<close> is absent or a list of objects.
\<close>

definition pipeline_shape :: "json \<Rightarrow> bool" where
  "pipeline_shape pipe =
     (case pipe of
        JObj kvs \<Rightarrow>
          (case field_or kvs ''conf'' (JObj []) of
             JObj ckvs \<Rightarrow>
               (case field_or ckvs ''functions'' (JArr []) of
                  JArr fs \<Rightarrow> list_all is_obj fs
                | _ \<Rightarrow> False)
           | _ \<Rightarrow> False)
      | _ \<Rightarrow> False)"

section \<open>What a run of the aggregation produces\<close>







section \<open>Example payloads and services\<close>


text \<open>Three route sets with two, no and one entry; the second has no \<^verbatim>\<open>routes\<close> field.\<close>

definition example_route_sets :: "json list" where
  "example_route_sets =
     [JObj [(''id'', JStr ''default''),
            (''routes'', JArr [JObj [(''id'', JStr ''r1'')], JObj [(''name'', JStr ''r2'')]])],
      JObj [(''id'', JStr ''empty'')],
      JObj [(''routes'', JArr [JObj [(''id'', JStr ''r3'')]])]]"

definition example_route_entries :: "json list list" where
  "example_route_entries =
     [[JObj [(''id'', JStr ''r1'')], JObj [(''name'', JStr ''r2'')]], [],
      [JObj [(''id'', JStr ''r3'')]]]"

definition two_groups :: "json list" where
  "two_groups = [JObj [(''id'', JStr ''a'')], JObj []]"

definition two_workers :: json where
  "two_workers =
     JObj [(''items'',
            JArr [JObj [(''id'', JStr ''w1''), (''connected'', JBool True)],
                  JObj [(''id'', JStr ''w2''), (''info'', JObj [(''hostname'', JStr ''edge-2'')])]])]"

text \<open>A worker whose \<^verbatim>\<open>info\<close> holds a hostname and a version, and no \<^verbatim>\<open>host\<close>.\<close>

definition versioned_worker :: "(string \<times> json) list" where
  "versioned_worker =
     [(''id'', JStr ''w2''),
      (''info'', JObj [(''hostname'', JStr ''edge-2''),
                      (''cribl'', JObj [(''version'', JStr ''4.5.0'')])])]"

text \<open>The record extracted from a group item that has an id only.\<close>

definition group_named :: "string \<Rightarrow> group_info" where
  "group_named name =
     \<lparr> group_id = JStr name, group_name = JStr name, group_product = JStr ''stream'',
       group_description = JStr '''', group_worker_count = JInt 0,
       group_configVersion = JStr ''N/A'' \<rparr>"


text \<open>A service that answers the groups request and rejects every later one with 401.\<close>

definition unauthorized_workers_client :: client where
  "unauthorized_workers_client n req =
     (if n = 0 then Ok (JObj [(''items'', JArr [JObj [(''id'', JStr ''A'')]])])
      else Err ''Authentication failed. Please check your Bearer token.'')"

text \<open>A service that cannot be reached.\<close>

definition no_connection_client :: client where
  "no_connection_client n req = Err ''Connection failed. Check your URL and network connection.''"



section \<open>Basic facts\<close>

subsection \<open>Sequencing, lookups and the extraction loop\<close>

lemma py_bind_Inr [simp]: "py_bind (Inr x) f = f x"
  by (simp add: py_bind_def)

lemma py_bind_Inl [simp]: "py_bind (Inl e) f = Inl e"
  by (simp add: py_bind_def)



lemma extract_loop_Inr_iff:
  "extract_loop f xs acc = Inr rs \<longleftrightarrow>
     (\<exists>ys. rs = acc @ ys \<and> list_all2 (\<lambda>x y. f x = Inr y) xs ys)"
proof (induction xs arbitrary: acc)
  case Nil
  show ?case by auto
next
  case (Cons x xs)
  show ?case
  proof (cases "f x")
    case (Inl e)
    then show ?thesis by (auto simp: list_all2_Cons1)
  next
    case (Inr r)
    then show ?thesis by (auto simp: Cons.IH list_all2_Cons1)
  qed
qed

lemma field_or_absent: "map_of kvs key = None \<Longrightarrow> field_or kvs key dflt = dflt"
  by (simp add: field_or_def)

lemma field_or_present: "map_of kvs key = Some v \<Longrightarrow> field_or kvs key dflt = v"
  by (simp add: field_or_def)

lemma py_get_not_obj: "\<not> is_obj j \<Longrightarrow> py_get j key dflt = Inl AttributeError"
  by (cases j) simp_all

lemma is_obj_iff: "is_obj j \<longleftrightarrow> (\<exists>kvs. j = JObj kvs)"
  by (cases j) simp_all

subsection \<open>The records of items that are objects\<close>

lemma group_item_obj:
  "group_item (JObj kvs) =
     Inr \<lparr> group_id = field_or kvs ''id'' (JStr ''N/A''),
           group_name = field_or kvs ''name'' (field_or kvs ''id'' (JStr ''N/A'')),
           group_product = field_or kvs ''product'' (JStr ''stream''),
           group_description = field_or kvs ''description'' (JStr ''''),
           group_worker_count = field_or kvs ''workerCount'' (JInt 0),
           group_configVersion = field_or kvs ''configVersion'' (JStr ''N/A'') \<rparr>"
  by (simp add: group_item_def)

lemma input_item_obj:
  "input_item (JObj kvs) =
     Inr \<lparr> input_id = field_or kvs ''id'' (JStr ''N/A''),
           input_type = field_or kvs ''type'' (JStr ''N/A''),
           input_disabled = field_or kvs ''disabled'' (JBool False),
           input_port = field_or kvs ''port'' (field_or kvs ''host'' (JStr ''N/A'')),
           input_description = field_or kvs ''description'' (JStr '''') \<rparr>"
  by (simp add: input_item_def)

lemma output_item_obj:
  "output_item (JObj kvs) =
     Inr \<lparr> output_id = field_or kvs ''id'' (JStr ''N/A''),
           output_type = field_or kvs ''type'' (JStr ''N/A''),
           output_disabled = field_or kvs ''disabled'' (JBool False),
           output_description = field_or kvs ''description'' (JStr ''''),
           output_pipeline = field_or kvs ''pipeline'' (JStr '''') \<rparr>"
  by (simp add: output_item_def)

lemma route_entry_obj:
  "route_entry (JObj kvs) =
     Inr \<lparr> route_id = field_or kvs ''id'' (field_or kvs ''name'' (JStr ''N/A'')),
           route_name = field_or kvs ''name'' (JStr ''N/A''),
           route_filter = field_or kvs ''filter'' (JStr ''*''),
           route_pipeline = field_or kvs ''pipeline'' (JStr ''passthru''),
           route_output = field_or kvs ''output'' (JStr ''default''),
           route_enabled = (\<not> truthy (field_or kvs ''disabled'' (JBool False))),
           route_final = field_or kvs ''final'' (JBool False),
           route_description = field_or kvs ''description'' (JStr '''') \<rparr>"
  by (simp add: route_entry_def)

lemma function_type_obj: "function_type (JObj kvs) = Inr (field_or kvs ''id'' (JStr ''unknown''))"
  by (simp add: function_type_def)

lemma all_obj_extracted:
  assumes "\<And>kvs. \<exists>r. f (JObj kvs) = Inr r" and "list_all is_obj xs"
  shows "\<exists>ys. list_all2 (\<lambda>x y. f x = Inr y) xs ys"
  using assms(2)
proof (induction xs)
  case Nil
  show ?case by simp
next
  case (Cons x xs)
  then obtain ys where ys: "list_all2 (\<lambda>x y. f x = Inr y) xs ys" by auto
  from Cons.prems obtain kvs where "x = JObj kvs" by (auto simp: is_obj_iff)
  with assms(1) obtain y where "f x = Inr y" by blast
  with ys have "list_all2 (\<lambda>x y. f x = Inr y) (x # xs) (y # ys)" by simp
  then show ?case by blast
qed

lemma items_loop_list:
  "field_or kvs ''items'' (JArr []) = JArr xs \<Longrightarrow>
   py_bind (py_get (JObj kvs) ''items'' (JArr [])) (\<lambda>items. py_bind (py_iter items) body) = body xs"
  by simp

lemma extract_loop_nil_iff:
  "extract_loop f xs [] = Inr rs \<longleftrightarrow> list_all2 (\<lambda>x y. f x = Inr y) xs rs"
  by (simp add: extract_loop_Inr_iff)

lemma all_shaped_extracted:
  assumes "\<And>x. shape x \<Longrightarrow> \<exists>r. f x = Inr r" and "list_all shape xs"
  shows "\<exists>ys. list_all2 (\<lambda>x y. f x = Inr y) xs ys"
  using assms(2)
proof (induction xs)
  case Nil
  show ?case by simp
next
  case (Cons x xs)
  then obtain ys where ys: "list_all2 (\<lambda>x y. f x = Inr y) xs ys" by auto
  from Cons.prems have "shape x" by simp
  with assms(1) obtain y where "f x = Inr y" by blast
  with ys have "list_all2 (\<lambda>x y. f x = Inr y) (x # xs) (y # ys)" by simp
  then show ?case by blast
qed

lemma function_types_obj:
  "list_all is_obj fs \<Longrightarrow> \<exists>ids. list_all2 (\<lambda>f t. function_type f = Inr t) fs ids"
  by (rule all_obj_extracted) (simp_all add: function_type_obj)

lemma pipeline_item_shaped:
  assumes conf: "field_or kvs ''conf'' (JObj []) = JObj ckvs"
    and funs: "field_or ckvs ''functions'' (JArr []) = JArr fs"
    and ids: "list_all2 (\<lambda>f t. function_type f = Inr t) fs ids"
  shows "pipeline_item (JObj kvs) =
     Inr \<lparr> pipeline_id = field_or kvs ''id'' (JStr ''N/A''),
           pipeline_description = field_or ckvs ''description'' (JStr ''''),
           pipeline_function_count = length fs,
           pipeline_functions = take 5 ids,
           pipeline_disabled = field_or ckvs ''disabled'' (JBool False) \<rparr>"
proof -
  from ids have "extract_loop function_type fs [] = Inr ids"
    by (simp add: extract_loop_nil_iff)
  then show ?thesis
    by (simp add: pipeline_item_def conf funs)
qed

lemma pipeline_item_shape: "pipeline_shape pipe \<Longrightarrow> \<exists>r. pipeline_item pipe = Inr r"
proof -
  assume "pipeline_shape pipe"
  then obtain kvs ckvs fs where "pipe = JObj kvs" "field_or kvs ''conf'' (JObj []) = JObj ckvs"
    "field_or ckvs ''functions'' (JArr []) = JArr fs" "list_all is_obj fs"
    by (auto simp: pipeline_shape_def split: json.splits)
  moreover from this obtain ids where "list_all2 (\<lambda>f t. function_type f = Inr t) fs ids"
    using function_types_obj by blast
  ultimately show ?thesis using pipeline_item_shaped by blast
qed

lemma worker_item_shaped:
  assumes info: "field_or kvs ''info'' (JObj []) = JObj ikvs"
    and cribl: "field_or ikvs ''cribl'' (JObj []) = JObj ckvs"
    and host: "field_or ikvs ''host'' (JObj []) = JObj hkvs"
  shows "worker_item (JObj kvs) =
     Inr \<lparr> worker_id = field_or kvs ''id'' (JStr ''N/A''),
           worker_hostname = field_or ikvs ''hostname'' (field_or kvs ''hostname'' (JStr ''N/A'')),
           worker_group = field_or kvs ''group'' (JStr ''N/A''),
           worker_status =
             (if truthy (field_or kvs ''connected'' (JBool False)) then ''Online'' else ''Offline''),
           worker_version = field_or ckvs ''version'' (JStr ''N/A''),
           worker_ip = field_or hkvs ''ip'' (JStr ''N/A'') \<rparr>"
  by (simp add: worker_item_def info cribl host)

lemma worker_item_shape: "worker_shape wrk \<Longrightarrow> \<exists>r. worker_item wrk = Inr r"
proof -
  assume "worker_shape wrk"
  then obtain kvs ikvs ckvs hkvs where "wrk = JObj kvs" "field_or kvs ''info'' (JObj []) = JObj ikvs"
    "field_or ikvs ''cribl'' (JObj []) = JObj ckvs" "field_or ikvs ''host'' (JObj []) = JObj hkvs"
    by (auto simp: worker_shape_def is_obj_iff split: json.splits)
  then show ?thesis using worker_item_shaped by blast
qed



lemma carries_routes_list:
  "carries route_set entries \<Longrightarrow>
     py_bind (py_get route_set ''routes'' (JArr [])) (\<lambda>routes_list.
       py_bind (py_iter routes_list) body) = body entries"
  by (cases route_set) (simp_all add: carries_def field_or_def split: option.splits)

lemma route_entries_obj:
  "list_all is_obj entries \<Longrightarrow> \<exists>rs. list_all2 (\<lambda>e r. route_entry e = Inr r) entries rs"
  by (rule all_obj_extracted) (simp_all add: route_entry_obj)

lemma route_sets_loop_flatten:
  assumes "list_all2 carries sets ess" and "list_all (list_all is_obj) ess"
  shows "\<exists>rs. route_sets_loop sets acc = Inr (acc @ rs) \<and>
              list_all2 (\<lambda>e r. route_entry e = Inr r) (concat ess) rs"
  using assms
proof (induction sets ess arbitrary: acc rule: list_all2_induct)
  case Nil
  show ?case by simp
next
  case (Cons s sets es ess)
  from Cons.prems have es: "list_all is_obj es" and ess: "list_all (list_all is_obj) ess"
    by simp_all
  from route_entries_obj [OF es] obtain ys where
    ys: "list_all2 (\<lambda>e r. route_entry e = Inr r) es ys" ..
  have inner: "extract_loop route_entry es acc = Inr (acc @ ys)"
    unfolding extract_loop_Inr_iff using ys by blast
  from Cons.IH [OF ess, of "acc @ ys"] obtain rs where
    rest: "route_sets_loop sets (acc @ ys) = Inr ((acc @ ys) @ rs)"
    and rs: "list_all2 (\<lambda>e r. route_entry e = Inr r) (concat ess) rs"
    by blast
  have step: "route_sets_loop (s # sets) acc = Inr (acc @ (ys @ rs))"
    by (simp add: carries_routes_list [OF Cons.hyps(1)] inner rest)
  have "list_all2 (\<lambda>e r. route_entry e = Inr r) (es @ concat ess) (ys @ rs)"
    using ys rs by (rule list_all2_appendI)
  then have all: "list_all2 (\<lambda>e r. route_entry e = Inr r) (concat (es # ess)) (ys @ rs)"
    by simp
  show ?case
    by (rule exI [of _ "ys @ rs"]) (rule conjI [OF step all])
qed

subsection \<open>The dict of group data and the loop over the groups\<close>













subsection \<open>Shaped payloads are extracted\<close>

lemma is_obj_returns:
  "is_obj x \<Longrightarrow> \<exists>r. group_item x = Inr r"
  "is_obj x \<Longrightarrow> \<exists>r. input_item x = Inr r"
  "is_obj x \<Longrightarrow> \<exists>r. output_item x = Inr r"
  by (auto simp: is_obj_iff group_item_obj input_item_obj output_item_obj)

lemma shaped_items_extracted:
  assumes items: "field_or kvs ''items'' (JArr []) = JArr xs"
    and item: "\<And>x. item_shape x \<Longrightarrow> \<exists>r. f x = Inr r"
    and xs: "list_all item_shape xs"
  shows "\<exists>rs. py_bind (py_get (JObj kvs) ''items'' (JArr [])) (\<lambda>items.
              py_bind (py_iter items) (\<lambda>xs. extract_loop f xs [])) = Inr rs \<and>
            list_all2 (\<lambda>x r. f x = Inr r) xs rs"
proof -
  from all_shaped_extracted [of item_shape f, OF item xs] obtain rs where
    rs: "list_all2 (\<lambda>x y. f x = Inr y) xs rs"
    by blast
  then have "extract_loop f xs [] = Inr rs"
    by (simp add: extract_loop_nil_iff)
  then have "py_bind (py_get (JObj kvs) ''items'' (JArr [])) (\<lambda>items.
              py_bind (py_iter items) (\<lambda>xs. extract_loop f xs [])) = Inr rs"
    by (simp add: items)
  with rs show ?thesis by blast
qed

lemma route_sets_extracted:
  assumes items: "field_or kvs ''items'' (JArr []) = JArr sets"
    and sets: "list_all2 carries sets ess"
    and ess: "list_all (list_all is_obj) ess"
  shows "\<exists>rs. extract_route_info (JObj kvs) = Inr rs \<and>
              list_all2 (\<lambda>e r. route_entry e = Inr r) (concat ess) rs"
proof -
  have "extract_route_info (JObj kvs) = route_sets_loop sets []"
    unfolding extract_route_info_def using items by (rule items_loop_list)
  moreover from route_sets_loop_flatten [OF sets ess, of "[]"] obtain rs where
    "route_sets_loop sets [] = Inr rs"
    and "list_all2 (\<lambda>e r. route_entry e = Inr r) (concat ess) rs"
    by auto
  ultimately show ?thesis by simp
qed

lemma worker_item_malformed_cribl:
  assumes "field_or kvs ''info'' (JObj []) = JObj ikvs"
    and "map_of ikvs ''cribl'' = Some v" and "\<not> is_obj v"
  shows "worker_item (JObj kvs) = Inl AttributeError"
  using assms by (simp add: worker_item_def field_or_present py_get_not_obj)

lemma worker_item_malformed_host:
  assumes info: "field_or kvs ''info'' (JObj []) = JObj ikvs"
    and host: "map_of ikvs ''host'' = Some v" and v: "\<not> is_obj v"
  shows "worker_item (JObj kvs) = Inl AttributeError"
proof (cases "is_obj (field_or ikvs ''cribl'' (JObj []))")
  case True
  then obtain ckvs where "field_or ikvs ''cribl'' (JObj []) = JObj ckvs"
    by (auto simp: is_obj_iff)
  with info host v show ?thesis
    by (simp add: worker_item_def field_or_present py_get_not_obj)
next
  case False
  with info show ?thesis
    by (simp add: worker_item_def py_get_not_obj)
qed

lemma worker_item_malformed_info:
  "map_of kvs ''info'' = Some v \<Longrightarrow> \<not> is_obj v \<Longrightarrow> worker_item (JObj kvs) = Inl AttributeError"
  by (simp add: worker_item_def field_or_present py_get_not_obj)

lemma pipeline_item_malformed_conf:
  "map_of kvs ''conf'' = Some v \<Longrightarrow> \<not> is_obj v \<Longrightarrow> pipeline_item (JObj kvs) = Inl AttributeError"
  by (simp add: pipeline_item_def field_or_present py_get_not_obj)

lemma worker_item_no_info:
  assumes "map_of kvs ''info'' = None"
  shows "worker_item (JObj kvs) =
     Inr \<lparr> worker_id = field_or kvs ''id'' (JStr ''N/A''),
           worker_hostname = field_or kvs ''hostname'' (JStr ''N/A''),
           worker_group = field_or kvs ''group'' (JStr ''N/A''),
           worker_status =
             (if truthy (field_or kvs ''connected'' (JBool False)) then ''Online'' else ''Offline''),
           worker_version = JStr ''N/A'',
           worker_ip = JStr ''N/A'' \<rparr>"
proof -
  have "field_or kvs ''info'' (JObj []) = JObj []"
    using assms by (rule field_or_absent)
  from worker_item_shaped [OF this, of "[]" "[]"] show ?thesis
    by (simp add: field_or_def)
qed

lemma worker_item_no_cribl_no_host:
  assumes "map_of kvs ''info'' = Some (JObj ikvs)"
    and "map_of ikvs ''cribl'' = None" and "map_of ikvs ''host'' = None"
  shows "worker_item (JObj kvs) =
     Inr \<lparr> worker_id = field_or kvs ''id'' (JStr ''N/A''),
           worker_hostname = field_or ikvs ''hostname'' (field_or kvs ''hostname'' (JStr ''N/A'')),
           worker_group = field_or kvs ''group'' (JStr ''N/A''),
           worker_status =
             (if truthy (field_or kvs ''connected'' (JBool False)) then ''Online'' else ''Offline''),
           worker_version = JStr ''N/A'',
           worker_ip = JStr ''N/A'' \<rparr>"
proof -
  have a: "field_or kvs ''info'' (JObj []) = JObj ikvs"
    using assms(1) by (rule field_or_present)
  have b: "field_or ikvs ''cribl'' (JObj []) = JObj []"
    using assms(2) by (rule field_or_absent)
  have c: "field_or ikvs ''host'' (JObj []) = JObj []"
    using assms(3) by (rule field_or_absent)
  have d: "field_or [] ''version'' (JStr ''N/A'') = JStr ''N/A''"
    "field_or [] ''ip'' (JStr ''N/A'') = JStr ''N/A''"
    by (simp_all add: field_or_def)
  from worker_item_shaped [OF a b c] show ?thesis
    by (simp only: d)
qed

lemma pipeline_item_no_conf:
  assumes "map_of kvs ''conf'' = None"
  shows "pipeline_item (JObj kvs) =
     Inr \<lparr> pipeline_id = field_or kvs ''id'' (JStr ''N/A''),
           pipeline_description = JStr '''',
           pipeline_function_count = 0,
           pipeline_functions = [],
           pipeline_disabled = JBool False \<rparr>"
proof -
  have a: "field_or kvs ''conf'' (JObj []) = JObj []"
    using assms by (rule field_or_absent)
  have b: "field_or [] ''functions'' (JArr []) = JArr []"
    by (simp add: field_or_def)
  have c: "list_all2 (\<lambda>f t. function_type f = Inr t) [] []"
    by simp
  from pipeline_item_shaped [OF a b c] show ?thesis
    by (simp add: field_or_def)
qed

section \<open>Payloads without items\<close>

text \<open>
  Claim C4. For every raw payload object that lacks a top-level \<^verbatim>\<open>items\<close> field, each of
  the six extractors (group, worker, input, output, pipeline, route) returns the empty
  list, and none raises.
\<close>

theorem no_items_field_gives_empty_list:
  assumes "map_of kvs ''items'' = None"
  shows "extract_group_info (JObj kvs) = Inr [] \<and>
         extract_worker_info (JObj kvs) = Inr [] \<and>
         extract_input_info (JObj kvs) = Inr [] \<and>
         extract_output_info (JObj kvs) = Inr [] \<and>
         extract_pipeline_info (JObj kvs) = Inr [] \<and>
         extract_route_info (JObj kvs) = Inr []"
  using assms
  by (simp add: extract_group_info_def extract_worker_info_def extract_input_info_def
      extract_output_info_def extract_pipeline_info_def extract_route_info_def
      field_or_absent)

theorem no_items_field_gives_empty_list_witness:
  "extract_group_info (JObj [(''count'', JInt 0)]) = Inr [] \<and>
   extract_worker_info (JObj [(''count'', JInt 0)]) = Inr [] \<and>
   extract_input_info (JObj [(''count'', JInt 0)]) = Inr [] \<and>
   extract_output_info (JObj [(''count'', JInt 0)]) = Inr [] \<and>
   extract_pipeline_info (JObj [(''count'', JInt 0)]) = Inr [] \<and>
   extract_route_info (JObj [(''count'', JInt 0)]) = Inr []"
  using no_items_field_gives_empty_list [of "[(''count'', JInt 0)]"] by simp

section \<open>Fields of the records\<close>




subsection \<open>Pipelines: function count and functions\<close>



section \<open>Shape of the extracted lists\<close>

text \<open>
  Claim C5. For every route-set payload whose \<^verbatim>\<open>items\<close> list holds the sets \<open>sets\<close>,
  where the i-th set carries the list \<open>ess ! i\<close> of route entries (objects), the route
  extractor returns exactly as many records as there are entries in all the sets
  together, and the records are those of the entries in the order of the concatenation:
  by set first, by position within the set second. A set without the nested list
  carries no entry and contributes no record.
\<close>

theorem routes_flattened_in_order:
  assumes "field_or kvs ''items'' (JArr []) = JArr sets"
    and "list_all2 carries sets ess"
    and "list_all (list_all is_obj) ess"
  shows "\<exists>rs. extract_route_info (JObj kvs) = Inr rs \<and>
              length rs = sum_list (map length ess) \<and>
              list_all2 (\<lambda>e r. route_entry e = Inr r) (concat ess) rs"
proof -
  have "extract_route_info (JObj kvs) = route_sets_loop sets []"
    unfolding extract_route_info_def using assms(1) by (rule items_loop_list)
  moreover from route_sets_loop_flatten [OF assms(2,3), of "[]"] obtain rs where
    "route_sets_loop sets [] = Inr rs"
    and rs: "list_all2 (\<lambda>e r. route_entry e = Inr r) (concat ess) rs"
    by auto
  moreover from rs have "length (concat ess) = length rs"
    by (rule list_all2_lengthD)
  then have "length rs = sum_list (map length ess)"
    by (simp add: length_concat)
  ultimately show ?thesis using rs by simp
qed

theorem routes_flattened_in_order_witness:
  "\<exists>rs. extract_route_info (JObj [(''items'', JArr example_route_sets)]) = Inr rs \<and>
        length rs = 3 \<and>
        map route_id rs = [JStr ''r1'', JStr ''r2'', JStr ''r3'']"
proof -
  have a: "field_or [(''items'', JArr example_route_sets)] ''items'' (JArr []) =
             JArr example_route_sets"
    by (simp add: field_or_def)
  have b: "list_all2 carries example_route_sets example_route_entries"
    by (simp add: example_route_sets_def example_route_entries_def carries_def)
  have c: "list_all (list_all is_obj) example_route_entries"
    by (simp add: example_route_entries_def)
  from routes_flattened_in_order [OF a b c] obtain rs where
    r: "extract_route_info (JObj [(''items'', JArr example_route_sets)]) = Inr rs"
    and len: "length rs = sum_list (map length example_route_entries)"
    and rel: "list_all2 (\<lambda>e r. route_entry e = Inr r) (concat example_route_entries) rs"
    by blast
  from len have len3: "length rs = 3"
    by (simp add: example_route_entries_def)
  from rel obtain y1 y2 y3 where rs: "rs = [y1, y2, y3]"
    and y1: "route_entry (JObj [(''id'', JStr ''r1'')]) = Inr y1"
    and y2: "route_entry (JObj [(''name'', JStr ''r2'')]) = Inr y2"
    and y3: "route_entry (JObj [(''id'', JStr ''r3'')]) = Inr y3"
    by (auto simp: example_route_entries_def list_all2_Cons1)
  from y1 have "route_id y1 = JStr ''r1''"
    by (auto simp: route_entry_obj field_or_def)
  moreover from y2 have "route_id y2 = JStr ''r2''"
    by (auto simp: route_entry_obj field_or_def)
  moreover from y3 have "route_id y3 = JStr ''r3''"
    by (auto simp: route_entry_obj field_or_def)
  ultimately have m: "map route_id rs = [JStr ''r1'', JStr ''r2'', JStr ''r3'']"
    by (simp add: rs)
  show ?thesis
    by (rule exI [of _ rs]) (intro conjI r len3 m)
qed

text \<open>
  Claim C10. Each of the group, worker, input, output and pipeline extractors returns a
  list exactly when that list holds, item by item and in the order of the payload's
  \<^verbatim>\<open>items\<close> list, the record of the item; the returned list is as long as
  \<^verbatim>\<open>items\<close>. The extractor does return when the items have the shape it reads.
  The route extractor is the one that deviates: it returns two records for a payload
  with a single item.
\<close>

theorem one_record_per_item_in_order:
  assumes "field_or kvs ''items'' (JArr []) = JArr xs"
  shows "(extract_group_info (JObj kvs) = Inr gs \<longleftrightarrow>
            list_all2 (\<lambda>x r. group_item x = Inr r) xs gs) \<and>
         (extract_worker_info (JObj kvs) = Inr ws \<longleftrightarrow>
            list_all2 (\<lambda>x r. worker_item x = Inr r) xs ws) \<and>
         (extract_input_info (JObj kvs) = Inr ins \<longleftrightarrow>
            list_all2 (\<lambda>x r. input_item x = Inr r) xs ins) \<and>
         (extract_output_info (JObj kvs) = Inr outs \<longleftrightarrow>
            list_all2 (\<lambda>x r. output_item x = Inr r) xs outs) \<and>
         (extract_pipeline_info (JObj kvs) = Inr ps \<longleftrightarrow>
            list_all2 (\<lambda>x r. pipeline_item x = Inr r) xs ps) \<and>
         (extract_group_info (JObj kvs) = Inr gs \<longrightarrow> length gs = length xs) \<and>
         (extract_worker_info (JObj kvs) = Inr ws \<longrightarrow> length ws = length xs) \<and>
         (extract_input_info (JObj kvs) = Inr ins \<longrightarrow> length ins = length xs) \<and>
         (extract_output_info (JObj kvs) = Inr outs \<longrightarrow> length outs = length xs) \<and>
         (extract_pipeline_info (JObj kvs) = Inr ps \<longrightarrow> length ps = length xs) \<and>
         (list_all is_obj xs \<longrightarrow>
            (\<exists>gs'. extract_group_info (JObj kvs) = Inr gs') \<and>
            (\<exists>ins'. extract_input_info (JObj kvs) = Inr ins') \<and>
            (\<exists>outs'. extract_output_info (JObj kvs) = Inr outs')) \<and>
         (list_all worker_shape xs \<longrightarrow> (\<exists>ws'. extract_worker_info (JObj kvs) = Inr ws')) \<and>
         (list_all pipeline_shape xs \<longrightarrow> (\<exists>ps'. extract_pipeline_info (JObj kvs) = Inr ps')) \<and>
         (\<exists>rs. extract_route_info
                 (JObj [(''items'', JArr [JObj [(''routes'', JArr [JObj [], JObj []])]])]) = Inr rs \<and>
               length rs = 2)"
proof -
  have dev: "\<exists>rs. extract_route_info
                 (JObj [(''items'', JArr [JObj [(''routes'', JArr [JObj [], JObj []])]])]) = Inr rs \<and>
               length rs = 2"
    by (simp add: extract_route_info_def route_entry_obj field_or_def)
  have g: "extract_group_info (JObj kvs) = extract_loop group_item xs []"
    unfolding extract_group_info_def using assms by (rule items_loop_list)
  have w: "extract_worker_info (JObj kvs) = extract_loop worker_item xs []"
    unfolding extract_worker_info_def using assms by (rule items_loop_list)
  have i: "extract_input_info (JObj kvs) = extract_loop input_item xs []"
    unfolding extract_input_info_def using assms by (rule items_loop_list)
  have out: "extract_output_info (JObj kvs) = extract_loop output_item xs []"
    unfolding extract_output_info_def using assms by (rule items_loop_list)
  have p: "extract_pipeline_info (JObj kvs) = extract_loop pipeline_item xs []"
    unfolding extract_pipeline_info_def using assms by (rule items_loop_list)
  have tot: "list_all is_obj xs \<Longrightarrow>
      (\<exists>gs'. list_all2 (\<lambda>x r. group_item x = Inr r) xs gs') \<and>
      (\<exists>ins'. list_all2 (\<lambda>x r. input_item x = Inr r) xs ins') \<and>
      (\<exists>outs'. list_all2 (\<lambda>x r. output_item x = Inr r) xs outs')"
    by (intro conjI all_obj_extracted) (simp_all add: group_item_obj input_item_obj output_item_obj)
  have totw: "list_all worker_shape xs \<Longrightarrow> \<exists>ws'. list_all2 (\<lambda>x r. worker_item x = Inr r) xs ws'"
    by (rule all_shaped_extracted [of worker_shape]) (simp_all add: worker_item_shape)
  have totp: "list_all pipeline_shape xs \<Longrightarrow> \<exists>ps'. list_all2 (\<lambda>x r. pipeline_item x = Inr r) xs ps'"
    by (rule all_shaped_extracted [of pipeline_shape]) (simp_all add: pipeline_item_shape)
  show ?thesis
    unfolding g w i out p extract_loop_nil_iff
    using tot totw totp dev
    by (auto dest: list_all2_lengthD)
qed

theorem one_record_per_item_in_order_witness:
  "\<exists>gs. extract_group_info (JObj [(''items'', JArr two_groups)]) = Inr gs \<and>
        length gs = 2 \<and>
        list_all2 (\<lambda>x r. group_item x = Inr r) two_groups gs"
proof -
  have a: "field_or [(''items'', JArr two_groups)] ''items'' (JArr []) = JArr two_groups"
    by (simp add: field_or_def)
  have b: "list_all is_obj two_groups"
    by (simp add: two_groups_def)
  note t = one_record_per_item_in_order [OF a]
  from t [THEN conjunct2, THEN conjunct2, THEN conjunct2, THEN conjunct2, THEN conjunct2, THEN conjunct2, THEN conjunct2, THEN conjunct2, THEN conjunct2, THEN conjunct2, THEN conjunct1, rule_format, OF b]
  have "\<exists>gs. extract_group_info (JObj [(''items'', JArr two_groups)]) = Inr gs"
    by (rule conjunct1)
  then obtain gs where
    gs: "extract_group_info (JObj [(''items'', JArr two_groups)]) = Inr gs" ..
  have len: "length gs = length two_groups"
    by (rule t [THEN conjunct2, THEN conjunct2, THEN conjunct2, THEN conjunct2, THEN conjunct2, THEN conjunct1, rule_format, OF gs])
  have rel: "list_all2 (\<lambda>x r. group_item x = Inr r) two_groups gs"
    by (rule t [THEN conjunct1, THEN iffD1, OF gs])
  from len have len2: "length gs = 2"
    by (simp add: two_groups_def)
  show ?thesis
    by (rule exI [of _ gs]) (intro conjI gs len2 rel)
qed

section \<open>Failures of the fetches\<close>




text \<open>
  Claim C2. When the groups fetch fails, the aggregation returns a failure naming the
  groups and has issued that request only. When the workers fetch fails (it is issued
  once the groups were fetched and extracted), the aggregation returns a failure naming
  the workers and has issued the groups and workers requests only: no nested request of
  any group, so no \<^verbatim>\<open>group_data\<close> is built.
\<close>

theorem global_fetch_failure_is_fatal:
  "(client 0 GetGroups = Err msg \<longrightarrow>
      fetch_all_data client = (Inr (Failed (''Failed to fetch groups: '' @ msg)), [GetGroups])) \<and>
   (client 0 GetGroups = Ok groups_data \<and> extract_group_info groups_data = Inr gs \<and>
    client 1 GetWorkers = Err msg \<longrightarrow>
      fetch_all_data client =
        (Inr (Failed (''Failed to fetch workers: '' @ msg)), [GetGroups, GetWorkers]))"
  by (simp add: fetch_all_data_def call_def)

theorem global_fetch_failure_is_fatal_witness:
  "fetch_all_data no_connection_client =
     (Inr (Failed (''Failed to fetch groups: '' @
                   ''Connection failed. Check your URL and network connection.'')),
      [GetGroups]) \<and>
   fetch_all_data unauthorized_workers_client =
     (Inr (Failed (''Failed to fetch workers: '' @
                   ''Authentication failed. Please check your Bearer token.'')),
      [GetGroups, GetWorkers])"
proof -
  have g: "no_connection_client 0 GetGroups =
             Err ''Connection failed. Check your URL and network connection.''"
    by (simp add: no_connection_client_def)
  have a: "unauthorized_workers_client 0 GetGroups =
             Ok (JObj [(''items'', JArr [JObj [(''id'', JStr ''A'')]])])"
    by (simp add: unauthorized_workers_client_def)
  have b: "extract_group_info (JObj [(''items'', JArr [JObj [(''id'', JStr ''A'')]])]) =
             Inr [group_named ''A'']"
    by (simp add: extract_group_info_def group_item_obj field_or_def group_named_def)
  have c: "unauthorized_workers_client 1 GetWorkers =
             Err ''Authentication failed. Please check your Bearer token.''"
    by (simp add: unauthorized_workers_client_def)
  note first =
    global_fetch_failure_is_fatal [where client = no_connection_client, THEN conjunct1,
      rule_format, OF g]
  note second =
    global_fetch_failure_is_fatal [where client = unauthorized_workers_client, THEN conjunct2,
      rule_format, OF conjI [OF a conjI [OF b c]]]
  from first second show ?thesis by (rule conjI)
qed

section \<open>Where the extractors return\<close>

text \<open>
  Claim C3, as the code has it. Each extractor returns a list, and raises nothing, on
  every payload object whose \<^verbatim>\<open>items\<close> field is absent or a list of items of the
  shape the extractor reads: objects; for workers with \<^verbatim>\<open>info\<close>,
  \<^verbatim>\<open>info.cribl\<close> and \<^verbatim>\<open>info.host\<close> each absent or an object; for pipelines with
  \<^verbatim>\<open>conf\<close> absent or an object and \<^verbatim>\<open>conf.functions\<close> absent or a list of
  objects; for route sets with \<^verbatim>\<open>routes\<close> absent or a list of objects. The list
  returned holds the records of the items, in order. The record of a shaped item is
  given field by field: every field read takes the value present and applies its
  default when the field is absent (\<open>field_or\<close>), in a sub-object that is present as
  at the top level, and an absent sub-object gives its leaves the sentinels of absent
  leaves: \<^verbatim>\<open>"N/A"\<close> for the worker's version and ip, the top-level hostname or
  \<^verbatim>\<open>"N/A"\<close> for its hostname, the empty description, \<^verbatim>\<open>False\<close>, 0 and the
  empty list for a pipeline. A sub-object (\<^verbatim>\<open>info\<close>, \<^verbatim>\<open>info.cribl\<close>,
  \<^verbatim>\<open>info.host\<close> or \<^verbatim>\<open>conf\<close>) that is present but is not an object is not
  tolerated: the extractor raises \<^verbatim>\<open>AttributeError\<close>.
\<close>

theorem extractors_total_on_shaped_payloads:
  "(field_or kvs ''items'' (JArr []) = JArr xs \<and> list_all is_obj xs \<longrightarrow>
      (\<exists>rs. extract_group_info (JObj kvs) = Inr rs \<and>
            list_all2 (\<lambda>x r. group_item x = Inr r) xs rs) \<and>
      (\<exists>rs. extract_input_info (JObj kvs) = Inr rs \<and>
            list_all2 (\<lambda>x r. input_item x = Inr r) xs rs) \<and>
      (\<exists>rs. extract_output_info (JObj kvs) = Inr rs \<and>
            list_all2 (\<lambda>x r. output_item x = Inr r) xs rs)) \<and>
   (field_or kvs ''items'' (JArr []) = JArr xs \<and> list_all worker_shape xs \<longrightarrow>
      (\<exists>rs. extract_worker_info (JObj kvs) = Inr rs \<and>
            list_all2 (\<lambda>x r. worker_item x = Inr r) xs rs)) \<and>
   (field_or kvs ''items'' (JArr []) = JArr xs \<and> list_all pipeline_shape xs \<longrightarrow>
      (\<exists>rs. extract_pipeline_info (JObj kvs) = Inr rs \<and>
            list_all2 (\<lambda>x r. pipeline_item x = Inr r) xs rs)) \<and>
   (field_or kvs ''items'' (JArr []) = JArr xs \<and> list_all2 carries xs ess \<and>
    list_all (list_all is_obj) ess \<longrightarrow>
      (\<exists>rs. extract_route_info (JObj kvs) = Inr rs \<and>
            list_all2 (\<lambda>e r. route_entry e = Inr r) (concat ess) rs)) \<and>
   (field_or wkvs ''info'' (JObj []) = JObj ikvs \<and>
    field_or ikvs ''cribl'' (JObj []) = JObj cribl_kvs \<and>
    field_or ikvs ''host'' (JObj []) = JObj host_kvs \<longrightarrow>
      worker_item (JObj wkvs) =
        Inr \<lparr> worker_id = field_or wkvs ''id'' (JStr ''N/A''),
              worker_hostname =
                field_or ikvs ''hostname'' (field_or wkvs ''hostname'' (JStr ''N/A'')),
              worker_group = field_or wkvs ''group'' (JStr ''N/A''),
              worker_status =
                (if truthy (field_or wkvs ''connected'' (JBool False))
                 then ''Online'' else ''Offline''),
              worker_version = field_or cribl_kvs ''version'' (JStr ''N/A''),
              worker_ip = field_or host_kvs ''ip'' (JStr ''N/A'') \<rparr>) \<and>
   (map_of wkvs ''info'' = None \<longrightarrow>
      worker_item (JObj wkvs) =
        Inr \<lparr> worker_id = field_or wkvs ''id'' (JStr ''N/A''),
              worker_hostname = field_or wkvs ''hostname'' (JStr ''N/A''),
              worker_group = field_or wkvs ''group'' (JStr ''N/A''),
              worker_status =
                (if truthy (field_or wkvs ''connected'' (JBool False))
                 then ''Online'' else ''Offline''),
              worker_version = JStr ''N/A'',
              worker_ip = JStr ''N/A'' \<rparr>) \<and>
   (map_of wkvs ''info'' = Some (JObj ikvs) \<and> map_of ikvs ''cribl'' = None \<and>
    map_of ikvs ''host'' = None \<longrightarrow>
      worker_item (JObj wkvs) =
        Inr \<lparr> worker_id = field_or wkvs ''id'' (JStr ''N/A''),
              worker_hostname =
                field_or ikvs ''hostname'' (field_or wkvs ''hostname'' (JStr ''N/A'')),
              worker_group = field_or wkvs ''group'' (JStr ''N/A''),
              worker_status =
                (if truthy (field_or wkvs ''connected'' (JBool False))
                 then ''Online'' else ''Offline''),
              worker_version = JStr ''N/A'',
              worker_ip = JStr ''N/A'' \<rparr>) \<and>
   (field_or pkvs ''conf'' (JObj []) = JObj conf_kvs \<and>
    field_or conf_kvs ''functions'' (JArr []) = JArr fs \<and>
    list_all2 (\<lambda>f t. function_type f = Inr t) fs ids \<longrightarrow>
      pipeline_item (JObj pkvs) =
        Inr \<lparr> pipeline_id = field_or pkvs ''id'' (JStr ''N/A''),
              pipeline_description = field_or conf_kvs ''description'' (JStr ''''),
              pipeline_function_count = length fs,
              pipeline_functions = take 5 ids,
              pipeline_disabled = field_or conf_kvs ''disabled'' (JBool False) \<rparr>) \<and>
   (map_of pkvs ''conf'' = None \<longrightarrow>
      pipeline_item (JObj pkvs) =
        Inr \<lparr> pipeline_id = field_or pkvs ''id'' (JStr ''N/A''),
              pipeline_description = JStr '''',
              pipeline_function_count = 0,
              pipeline_functions = [],
              pipeline_disabled = JBool False \<rparr>) \<and>
   (map_of wkvs ''info'' = Some v \<and> \<not> is_obj v \<longrightarrow>
      worker_item (JObj wkvs) = Inl AttributeError) \<and>
   (field_or wkvs ''info'' (JObj []) = JObj ikvs \<and> map_of ikvs ''cribl'' = Some v \<and>
    \<not> is_obj v \<longrightarrow>
      worker_item (JObj wkvs) = Inl AttributeError) \<and>
   (field_or wkvs ''info'' (JObj []) = JObj ikvs \<and> map_of ikvs ''host'' = Some v \<and>
    \<not> is_obj v \<longrightarrow>
      worker_item (JObj wkvs) = Inl AttributeError) \<and>
   (map_of pkvs ''conf'' = Some v \<and> \<not> is_obj v \<longrightarrow>
      pipeline_item (JObj pkvs) = Inl AttributeError) \<and>
   group_item (JObj okvs) =
     Inr \<lparr> group_id = field_or okvs ''id'' (JStr ''N/A''),
           group_name = field_or okvs ''name'' (field_or okvs ''id'' (JStr ''N/A'')),
           group_product = field_or okvs ''product'' (JStr ''stream''),
           group_description = field_or okvs ''description'' (JStr ''''),
           group_worker_count = field_or okvs ''workerCount'' (JInt 0),
           group_configVersion = field_or okvs ''configVersion'' (JStr ''N/A'') \<rparr> \<and>
   input_item (JObj okvs) =
     Inr \<lparr> input_id = field_or okvs ''id'' (JStr ''N/A''),
           input_type = field_or okvs ''type'' (JStr ''N/A''),
           input_disabled = field_or okvs ''disabled'' (JBool False),
           input_port = field_or okvs ''port'' (field_or okvs ''host'' (JStr ''N/A'')),
           input_description = field_or okvs ''description'' (JStr '''') \<rparr> \<and>
   output_item (JObj okvs) =
     Inr \<lparr> output_id = field_or okvs ''id'' (JStr ''N/A''),
           output_type = field_or okvs ''type'' (JStr ''N/A''),
           output_disabled = field_or okvs ''disabled'' (JBool False),
           output_description = field_or okvs ''description'' (JStr ''''),
           output_pipeline = field_or okvs ''pipeline'' (JStr '''') \<rparr> \<and>
   route_entry (JObj okvs) =
     Inr \<lparr> route_id = field_or okvs ''id'' (field_or okvs ''name'' (JStr ''N/A'')),
           route_name = field_or okvs ''name'' (JStr ''N/A''),
           route_filter = field_or okvs ''filter'' (JStr ''*''),
           route_pipeline = field_or okvs ''pipeline'' (JStr ''passthru''),
           route_output = field_or okvs ''output'' (JStr ''default''),
           route_enabled = (\<not> truthy (field_or okvs ''disabled'' (JBool False))),
           route_final = field_or okvs ''final'' (JBool False),
           route_description = field_or okvs ''description'' (JStr '''') \<rparr> \<and>
   function_type (JObj okvs) = Inr (field_or okvs ''id'' (JStr ''unknown''))"
proof -
  have t1: "field_or kvs ''items'' (JArr []) = JArr xs \<and> list_all is_obj xs \<longrightarrow>
      (\<exists>rs. extract_group_info (JObj kvs) = Inr rs \<and>
            list_all2 (\<lambda>x r. group_item x = Inr r) xs rs) \<and>
      (\<exists>rs. extract_input_info (JObj kvs) = Inr rs \<and>
            list_all2 (\<lambda>x r. input_item x = Inr r) xs rs) \<and>
      (\<exists>rs. extract_output_info (JObj kvs) = Inr rs \<and>
            list_all2 (\<lambda>x r. output_item x = Inr r) xs rs)"
    unfolding extract_group_info_def extract_input_info_def extract_output_info_def
    by (intro impI conjI; elim conjE; rule shaped_items_extracted [of kvs xs is_obj])
       (simp_all add: is_obj_returns)
  have t2: "field_or kvs ''items'' (JArr []) = JArr xs \<and> list_all worker_shape xs \<longrightarrow>
      (\<exists>rs. extract_worker_info (JObj kvs) = Inr rs \<and>
            list_all2 (\<lambda>x r. worker_item x = Inr r) xs rs)"
    unfolding extract_worker_info_def
    by (intro impI; elim conjE; rule shaped_items_extracted [of kvs xs worker_shape])
       (simp_all add: worker_item_shape)
  have t3: "field_or kvs ''items'' (JArr []) = JArr xs \<and> list_all pipeline_shape xs \<longrightarrow>
      (\<exists>rs. extract_pipeline_info (JObj kvs) = Inr rs \<and>
            list_all2 (\<lambda>x r. pipeline_item x = Inr r) xs rs)"
    unfolding extract_pipeline_info_def
    by (intro impI; elim conjE; rule shaped_items_extracted [of kvs xs pipeline_shape])
       (simp_all add: pipeline_item_shape)
  have t4: "field_or kvs ''items'' (JArr []) = JArr xs \<and> list_all2 carries xs ess \<and>
    list_all (list_all is_obj) ess \<longrightarrow>
      (\<exists>rs. extract_route_info (JObj kvs) = Inr rs \<and>
            list_all2 (\<lambda>e r. route_entry e = Inr r) (concat ess) rs)"
    by (intro impI; elim conjE; rule route_sets_extracted)
  note shaped = worker_item_shaped [of wkvs ikvs cribl_kvs host_kvs]
    pipeline_item_shaped [of pkvs conf_kvs fs ids]
  note defaults = worker_item_no_info [of wkvs] worker_item_no_cribl_no_host [of wkvs ikvs]
    pipeline_item_no_conf [of pkvs]
  note raises = worker_item_malformed_info [of wkvs v] worker_item_malformed_cribl [of wkvs ikvs v]
    worker_item_malformed_host [of wkvs ikvs v] pipeline_item_malformed_conf [of pkvs v]
  show ?thesis
    by (intro conjI t1 t2 t3 t4 impI group_item_obj input_item_obj output_item_obj
        route_entry_obj function_type_obj; (elim conjE)?;
        (rule shaped defaults raises; assumption)?)
qed

theorem extractors_total_on_shaped_payloads_witness:
  "(\<exists>rs. extract_worker_info two_workers = Inr rs \<and> length rs = 2) \<and>
   worker_item (JObj versioned_worker) =
     Inr \<lparr> worker_id = JStr ''w2'', worker_hostname = JStr ''edge-2'',
           worker_group = JStr ''N/A'', worker_status = ''Offline'',
           worker_version = JStr ''4.5.0'', worker_ip = JStr ''N/A'' \<rparr> \<and>
   worker_item (JObj [(''id'', JStr ''w1''), (''connected'', JBool True)]) =
     Inr \<lparr> worker_id = JStr ''w1'', worker_hostname = JStr ''N/A'', worker_group = JStr ''N/A'',
           worker_status = ''Online'', worker_version = JStr ''N/A'', worker_ip = JStr ''N/A'' \<rparr> \<and>
   worker_item (JObj [(''id'', JStr ''w1''), (''info'', JNull)]) = Inl AttributeError \<and>
   worker_item (JObj [(''info'', JObj [(''cribl'', JNull)])]) = Inl AttributeError"
proof -
  let ?ws = "[JObj [(''id'', JStr ''w1''), (''connected'', JBool True)],
              JObj [(''id'', JStr ''w2''), (''info'', JObj [(''hostname'', JStr ''edge-2'')])]]"
  have shaped: "field_or [(''items'', JArr ?ws)] ''items'' (JArr []) = JArr ?ws \<and>
      list_all worker_shape ?ws"
    by (simp add: worker_shape_def field_or_def)
  from extractors_total_on_shaped_payloads
      [where kvs = "[(''items'', JArr ?ws)]" and xs = ?ws, THEN conjunct2, THEN conjunct1,
       THEN mp, OF shaped]
  obtain rs where rs: "extract_worker_info (JObj [(''items'', JArr ?ws)]) = Inr rs"
    and rel: "list_all2 (\<lambda>x r. worker_item x = Inr r) ?ws rs"
    by blast
  from rel have "length ?ws = length rs"
    by (rule list_all2_lengthD)
  then have len: "length rs = 2"
    by simp
  from rs have rs': "extract_worker_info two_workers = Inr rs"
    by (simp add: two_workers_def)
  have total: "\<exists>rs. extract_worker_info two_workers = Inr rs \<and> length rs = 2"
    by (rule exI [of _ rs]) (intro conjI rs' len)
  have present: "field_or versioned_worker ''info'' (JObj []) =
        JObj [(''hostname'', JStr ''edge-2''), (''cribl'', JObj [(''version'', JStr ''4.5.0'')])] \<and>
      field_or [(''hostname'', JStr ''edge-2''), (''cribl'', JObj [(''version'', JStr ''4.5.0'')])]
        ''cribl'' (JObj []) = JObj [(''version'', JStr ''4.5.0'')] \<and>
      field_or [(''hostname'', JStr ''edge-2''), (''cribl'', JObj [(''version'', JStr ''4.5.0'')])]
        ''host'' (JObj []) = JObj []"
    by (simp add: versioned_worker_def field_or_def)
  note full =
    extractors_total_on_shaped_payloads
      [where wkvs = versioned_worker, THEN conjunct2, THEN conjunct2, THEN conjunct2,
       THEN conjunct2, THEN conjunct1, THEN mp, OF present]
  from full have full': "worker_item (JObj versioned_worker) =
     Inr \<lparr> worker_id = JStr ''w2'', worker_hostname = JStr ''edge-2'',
           worker_group = JStr ''N/A'', worker_status = ''Offline'',
           worker_version = JStr ''4.5.0'', worker_ip = JStr ''N/A'' \<rparr>"
    by (simp add: versioned_worker_def field_or_def)
  have absent: "map_of [(''id'', JStr ''w1''), (''connected'', JBool True)] ''info'' = None"
    by simp
  note dflt =
    extractors_total_on_shaped_payloads
      [where wkvs = "[(''id'', JStr ''w1''), (''connected'', JBool True)]",
       THEN conjunct2, THEN conjunct2, THEN conjunct2, THEN conjunct2, THEN conjunct2,
       THEN conjunct1, THEN mp, OF absent]
  from dflt have dflt': "worker_item (JObj [(''id'', JStr ''w1''), (''connected'', JBool True)]) =
     Inr \<lparr> worker_id = JStr ''w1'', worker_hostname = JStr ''N/A'', worker_group = JStr ''N/A'',
           worker_status = ''Online'', worker_version = JStr ''N/A'', worker_ip = JStr ''N/A'' \<rparr>"
    by (simp add: field_or_def)
  have malformed: "map_of [(''id'', JStr ''w1''), (''info'', JNull)] ''info'' = Some JNull \<and>
      \<not> is_obj JNull"
    by simp
  note raised =
    extractors_total_on_shaped_payloads
      [where wkvs = "[(''id'', JStr ''w1''), (''info'', JNull)]" and v = JNull,
       THEN conjunct2, THEN conjunct2, THEN conjunct2, THEN conjunct2, THEN conjunct2,
       THEN conjunct2, THEN conjunct2, THEN conjunct2, THEN conjunct2, THEN conjunct1,
       THEN mp, OF malformed]
  have malformed_cribl:
    "field_or [(''info'', JObj [(''cribl'', JNull)])] ''info'' (JObj []) = JObj [(''cribl'', JNull)] \<and>
     map_of [(''cribl'', JNull)] ''cribl'' = Some JNull \<and> \<not> is_obj JNull"
    by (simp add: field_or_def)
  note raised_cribl =
    extractors_total_on_shaped_payloads
      [where wkvs = "[(''info'', JObj [(''cribl'', JNull)])]" and v = JNull,
       THEN conjunct2, THEN conjunct2, THEN conjunct2, THEN conjunct2, THEN conjunct2,
       THEN conjunct2, THEN conjunct2, THEN conjunct2, THEN conjunct2, THEN conjunct2,
       THEN conjunct1, THEN mp, OF malformed_cribl]
  show ?thesis
    by (intro conjI total full' dflt' raised raised_cribl)
qed

text \<open>
  Claim C3 as written (no extractor ever raises, and a malformed sub-object degrades
  to the sentinel) fails: a worker whose \<^verbatim>\<open>info\<close> is \<^verbatim>\<open>null\<close>, a pipeline whose
  \<^verbatim>\<open>conf\<close> is \<^verbatim>\<open>null\<close>, an item that is a string, and a payload that is a list
  each make the extractor raise \<^verbatim>\<open>AttributeError\<close>.
\<close>

theorem malformed_sub_object_raises:
  "extract_worker_info (JObj [(''items'', JArr [JObj [(''id'', JStr ''w1''), (''info'', JNull)]])]) =
     Inl AttributeError \<and>
   extract_pipeline_info (JObj [(''items'', JArr [JObj [(''id'', JStr ''main''), (''conf'', JNull)]])]) =
     Inl AttributeError \<and>
   extract_group_info (JObj [(''items'', JArr [JStr ''default''])]) = Inl AttributeError \<and>
   extract_group_info (JArr []) = Inl AttributeError"
  by (simp add: extract_worker_info_def extract_pipeline_info_def extract_group_info_def
      worker_item_def pipeline_item_def group_item_def field_or_def)

end
